theory Spec2Isabelle
  imports Main
begin

section \<open>Values that cross the transport\<close>

text \<open>
  Event payloads and handshake fields are chosen by the client: any JSON value may
  arrive where the server expects a string. Numbers are restricted to integers here;
  the handlers only test them for truthiness.
\<close>

datatype jsval =
    JUndefined
  | JNull
  | JBool bool
  | JNum int
  | JStr string
  | JArr "jsval list"
  | JObj "(string \<times> jsval) list"

text \<open>JavaScript's conversion to boolean, as used by \<open>x ? a : b\<close> and \<open>if (x)\<close>.\<close>

fun truthy :: "jsval \<Rightarrow> bool" where
  "truthy JUndefined = False"
| "truthy JNull = False"
| "truthy (JBool b) = b"
| "truthy (JNum n) = (n \<noteq> 0)"
| "truthy (JStr s) = (s \<noteq> [])"
| "truthy (JArr vs) = True"
| "truthy (JObj kvs) = True"

text \<open>The operator \<open>a ?? b\<close>: \<open>b\<close> when \<open>a\<close> is null or undefined, else \<open>a\<close>.\<close>

fun nullish :: "jsval \<Rightarrow> jsval \<Rightarrow> jsval" where
  "nullish JUndefined b = b"
| "nullish JNull b = b"
| "nullish a b = a"

section \<open>The storage collaborator\<close>

text \<open>
  The MongoDB driver is not part of the repository. Its identifiers are modelled as
  natural numbers ordered by \<open><\<close>, which is the order \<open>$gt\<close> compares them in.
  The \<open>ObjectId\<close> constructor and \<open>toString\<close> are parameters of the model: the
  constructor either yields an identifier or throws.
\<close>

type_synonym ObjectId = nat

datatype exn = BSONError | MongoError | TypeError

record bson =
  new_ObjectId :: "jsval \<Rightarrow> ObjectId option"
  toString :: "ObjectId \<Rightarrow> string"

text \<open>
  A collection holds its documents in natural (insertion) order, each under its
  \<open>_id\<close>, and the next identifier to hand out.
\<close>

record 'd collection =
  docs :: "(ObjectId \<times> 'd) list"
  next_id :: ObjectId

datatype query = MatchAll | IdEq ObjectId | IdGt ObjectId

fun matches :: "query \<Rightarrow> ObjectId \<Rightarrow> bool" where
  "matches MatchAll i = True"
| "matches (IdEq k) i = (i = k)"
| "matches (IdGt k) i = (k < i)"

text \<open>
  Modelled from the spec: the driver's \<open>insertOne\<close> is absent from the sources. The
  spec's storage contract is atomic assignment of a strictly increasing identifier
  that is never reused; a write to an unavailable store fails and changes nothing.
  The flag \<open>up\<close> says whether the store is available at this call.
\<close>

definition insertOne :: "bool \<Rightarrow> 'd \<Rightarrow> 'd collection \<Rightarrow> exn + (ObjectId \<times> 'd collection)" where
  "insertOne up d c =
     (if up
      then Inr (next_id c, c\<lparr>docs := docs c @ [(next_id c, d)], next_id := Suc (next_id c)\<rparr>)
      else Inl MongoError)"

text \<open>
  Modelled from the spec: the driver's \<open>findOne\<close> is absent from the sources; it is the
  point lookup of the storage contract and returns the first matching document in
  natural order, or nothing (\<open>null\<close>).
\<close>

definition findOne :: "bool \<Rightarrow> query \<Rightarrow> 'd collection \<Rightarrow> exn + (ObjectId \<times> 'd) option" where
  "findOne up q c =
     (if up then Inr (List.find (\<lambda>(i, d). matches q i) (docs c)) else Inl MongoError)"

text \<open>
  Modelled from the spec: the driver's \<open>find(query).toArray()\<close> is absent from the
  sources; it is the range lookup of the storage contract. No sort is requested by
  the callers, so the documents come back in natural order.
\<close>

definition find_toArray :: "bool \<Rightarrow> query \<Rightarrow> 'd collection \<Rightarrow> exn + (ObjectId \<times> 'd) list" where
  "find_toArray up q c =
     (if up then Inr (filter (\<lambda>(i, d). matches q i) (docs c)) else Inl MongoError)"

fun delete_first :: "query \<Rightarrow> (ObjectId \<times> 'd) list \<Rightarrow> (ObjectId \<times> 'd) list" where
  "delete_first q [] = []"
| "delete_first q (x # xs) = (if matches q (fst x) then xs else x # delete_first q xs)"

text \<open>
  Modelled from the spec: the driver's \<open>deleteOne\<close> is absent from the sources; it
  removes the first matching document and succeeds also when nothing matches.
\<close>

definition deleteOne :: "bool \<Rightarrow> query \<Rightarrow> 'd collection \<Rightarrow> exn + 'd collection" where
  "deleteOne up q c =
     (if up then Inr (c\<lparr>docs := delete_first q (docs c)\<rparr>) else Inl MongoError)"

section \<open>Connections, events and the server state\<close>

text \<open>The decoded token that the handshake middleware stores in \<open>socket.user\<close>.\<close>

record user_payload =
  username :: string

text \<open>The client-supplied \<open>socket.handshake.auth\<close> object.\<close>

record handshake_auth =
  auth_username :: jsval
  serverOffset :: jsval

record socket =
  socket_id :: string
  socket_user :: user_payload
  auth :: handshake_auth
  recovered :: bool

text \<open>The object persisted by \<open>src/index.js\<close> for one chat message.\<close>

record message =
  content :: jsval
  user :: string
  timestamp :: nat

text \<open>
  Events sent to clients: \<open>'chat message'\<close> with content, id string, author and
  timestamp, and \<open>'message deleted'\<close> with the id as the requester wrote it.
\<close>

datatype event =
    ChatMessage jsval string string nat
  | MessageDeleted jsval

text \<open>\<open>io.emit\<close> addresses every connected client, \<open>socket.emit\<close> one client.\<close>

datatype emit = IoEmit event | SocketEmit string event

datatype console_line =
    UserConnected string
  | UserDisconnected string
  | SaveOrEmitError exn
  | UnauthorizedDelete string jsval
  | DeleteError exn
  | RecoverError exn

record server =
  messagesCollection :: "message collection"
  listeners :: "(socket \<times> string) list"
  emitted :: "emit list"
  console :: "console_line list"

definition io_emit :: "event \<Rightarrow> server \<Rightarrow> server" where
  "io_emit ev srv = srv\<lparr>emitted := emitted srv @ [IoEmit ev]\<rparr>"

definition socket_emit :: "socket \<Rightarrow> event \<Rightarrow> server \<Rightarrow> server" where
  "socket_emit sock ev srv = srv\<lparr>emitted := emitted srv @ [SocketEmit (socket_id sock) ev]\<rparr>"

definition socket_on :: "socket \<Rightarrow> string \<Rightarrow> server \<Rightarrow> server" where
  "socket_on sock name srv = srv\<lparr>listeners := listeners srv @ [(sock, name)]\<rparr>"

definition console_write :: "console_line \<Rightarrow> server \<Rightarrow> server" where
  "console_write l srv = srv\<lparr>console := console srv @ [l]\<rparr>"

section \<open>The handlers of \<open>src/index.js\<close>\<close>

text \<open>
  Each handler is split as the source is: a function for the \<open>try\<close> block, whose
  result is the exception that left the block or the state it reached, and the handler
  itself, which adds the \<open>catch\<close>. No statement of a \<open>try\<close> block changes the state
  before one that can throw, so the \<open>catch\<close> starts from the state at entry. A second
  copy of the file, \<open>src/unnamed/part_000\<close>, has the same three handlers.
\<close>

subsection \<open>\<open>socket.on('chat message')\<close>\<close>

text \<open>
  The \<open>try\<close> block: persist the message, then broadcast it with the id the store
  assigned. A failed insert leaves the block before the broadcast.
\<close>

definition chat_message_try :: "bson \<Rightarrow> bool \<Rightarrow> message \<Rightarrow> server \<Rightarrow> exn + server" where
  "chat_message_try drv up m srv =
     (case insertOne up m (messagesCollection srv) of
        Inl e \<Rightarrow> Inl e
      | Inr (insertedId, c) \<Rightarrow>
          Inr (io_emit (ChatMessage (content m) (toString drv insertedId) (user m) (timestamp m))
                 (srv\<lparr>messagesCollection := c\<rparr>)))"

text \<open>
  The handler: the message object is built from the payload, the verified user name
  of the socket and the clock (\<open>now\<close>); the \<open>catch\<close> only writes to the console.
\<close>

definition chat_message :: "bson \<Rightarrow> bool \<Rightarrow> nat \<Rightarrow> socket \<Rightarrow> jsval \<Rightarrow> server \<Rightarrow> server" where
  "chat_message drv up now sock msg srv =
     (let m = \<lparr>content = msg, user = username (socket_user sock), timestamp = now\<rparr>
      in case chat_message_try drv up m srv of
           Inl e \<Rightarrow> console_write (SaveOrEmitError e) srv
         | Inr srv' \<Rightarrow> srv')"

subsection \<open>\<open>socket.on('delete message')\<close>\<close>

text \<open>
  The \<open>try\<close> block, run without another handler in between: the handler is
  suspended at \<open>await findOne\<close> and at \<open>await deleteOne\<close>, and what happens when
  other requests run during these awaits is modelled further down. \<open>up1\<close> and
  \<open>up2\<close> are the availability of the store at \<open>findOne\<close> and at \<open>deleteOne\<close>.
\<close>

definition delete_message_try ::
  "bson \<Rightarrow> bool \<Rightarrow> bool \<Rightarrow> socket \<Rightarrow> jsval \<Rightarrow> server \<Rightarrow> exn + server" where
  "delete_message_try drv up1 up2 sock messageId srv =
     (case new_ObjectId drv messageId of
        None \<Rightarrow> Inl BSONError
      | Some objectId \<Rightarrow>
          (case findOne up1 (IdEq objectId) (messagesCollection srv) of
             Inl e \<Rightarrow> Inl e
           | Inr found \<Rightarrow>
               if (case found of
                     None \<Rightarrow> False
                   | Some (i, m) \<Rightarrow> user m = username (socket_user sock))
               then (case deleteOne up2 (IdEq objectId) (messagesCollection srv) of
                       Inl e \<Rightarrow> Inl e
                     | Inr c \<Rightarrow> Inr (io_emit (MessageDeleted messageId) (srv\<lparr>messagesCollection := c\<rparr>)))
               else Inr (console_write
                           (UnauthorizedDelete (username (socket_user sock)) messageId) srv)))"

definition delete_message ::
  "bson \<Rightarrow> bool \<Rightarrow> bool \<Rightarrow> socket \<Rightarrow> jsval \<Rightarrow> server \<Rightarrow> server" where
  "delete_message drv up1 up2 sock messageId srv =
     (case delete_message_try drv up1 up2 sock messageId srv of
        Inl e \<Rightarrow> console_write (DeleteError e) srv
      | Inr srv' \<Rightarrow> srv')"

subsection \<open>\<open>io.on('connection')\<close> and the recovery of missed messages\<close>

text \<open>The query built from the offset the client declared, and its result.\<close>

definition recovery_query :: "bson \<Rightarrow> jsval \<Rightarrow> exn + query" where
  "recovery_query drv offset =
     (if truthy offset
      then (case new_ObjectId drv offset of
              None \<Rightarrow> Inl BSONError
            | Some k \<Rightarrow> Inr (IdGt k))
      else Inr MatchAll)"

definition recovery_results ::
  "bson \<Rightarrow> bool \<Rightarrow> socket \<Rightarrow> message collection \<Rightarrow> exn + (ObjectId \<times> message) list" where
  "recovery_results drv up sock c =
     (case recovery_query drv (serverOffset (auth sock)) of
        Inl e \<Rightarrow> Inl e
      | Inr q \<Rightarrow> find_toArray up q c)"

definition row_event :: "bson \<Rightarrow> ObjectId \<times> message \<Rightarrow> event" where
  "row_event drv row =
     ChatMessage (content (snd row)) (toString drv (fst row)) (user (snd row)) (timestamp (snd row))"

text \<open>The \<open>try\<close> block of the recovery: each row goes to this socket alone.\<close>

definition recovery_try :: "bson \<Rightarrow> bool \<Rightarrow> socket \<Rightarrow> server \<Rightarrow> exn + server" where
  "recovery_try drv up sock srv =
     (case recovery_results drv up sock (messagesCollection srv) of
        Inl e \<Rightarrow> Inl e
      | Inr results \<Rightarrow> Inr (foldl (\<lambda>s row. socket_emit sock (row_event drv row) s) srv results))"

text \<open>
  The connection handler from its first statement on, for a socket whose \<open>user\<close> is
  set: it logs the user name, registers the three listeners and then, unless
  \<open>socket.recovered\<close> is set, replays the missed messages.
\<close>

definition connection :: "bson \<Rightarrow> bool \<Rightarrow> socket \<Rightarrow> server \<Rightarrow> server" where
  "connection drv up sock srv =
     (let s1 = console_write (UserConnected (username (socket_user sock))) srv;
          s2 = socket_on sock ''disconnect'' s1;
          s3 = socket_on sock ''chat message'' s2;
          s4 = socket_on sock ''delete message'' s3
      in if \<not> recovered sock
         then (case recovery_try drv up sock s4 of
                 Inl e \<Rightarrow> console_write (RecoverError e) s4
               | Inr s5 \<Rightarrow> s5)
         else s4)"

text \<open>
  The socket as the \<open>'connection'\<close> event delivers it. Only the handshake
  middleware (\<open>io.use\<close>) assigns \<open>socket.user\<close>. The server is created with
  \<open>connectionStateRecovery: {}\<close>, under whose defaults socket.io does not run the
  middlewares when it restores a session: such a socket arrives with \<open>recovered\<close> set
  and with \<open>user\<close> undefined. \<open>Unverified\<close> carries its id, its handshake
  \<open>auth\<close> and its \<open>recovered\<close> flag.
\<close>

datatype delivered =
    Verified socket
  | Unverified string handshake_auth bool

fun delivered_recovered :: "delivered \<Rightarrow> bool" where
  "delivered_recovered (Verified sock) = recovered sock"
| "delivered_recovered (Unverified sid a r) = r"

text \<open>
  The whole connection handler. Its first statement reads \<open>socket.user.username\<close>,
  outside any \<open>try\<close>: without a user it throws there, before a listener is
  registered and before the recovery block is reached.
\<close>

fun on_connection :: "bson \<Rightarrow> bool \<Rightarrow> delivered \<Rightarrow> server \<Rightarrow> exn + server" where
  "on_connection drv up (Unverified sid a r) srv = Inl TypeError"
| "on_connection drv up (Verified sock) srv = Inr (connection drv up sock srv)"

definition disconnect :: "socket \<Rightarrow> server \<Rightarrow> server" where
  "disconnect sock srv = console_write (UserDisconnected (username (socket_user sock))) srv"

subsection \<open>Dispatch of incoming packets\<close>

text \<open>
  What the transport hands to the server, with the state of the environment at that
  moment (store availability, clock). A packet reaches a handler only if the socket
  registered a listener under the event's name; closing the transport runs the
  \<open>'disconnect'\<close> listener and drops the socket's listeners. Each handler runs to
  completion before the next input; the delete handler is also modelled between its
  awaits, further down. An exception that leaves the connection handler is caught by
  nobody: the handler has changed nothing by then, and the run goes on from the same
  state (what the runtime does with the rejected promise is outside the model).
\<close>

datatype input =
    Connection delivered bool
  | ChatMessageIn socket jsval bool nat
  | DeleteMessageIn socket jsval bool bool
  | Disconnect socket

fun step :: "bson \<Rightarrow> server \<Rightarrow> input \<Rightarrow> server" where
  "step drv srv (Connection d up) =
     (case on_connection drv up d srv of Inl e \<Rightarrow> srv | Inr srv' \<Rightarrow> srv')"
| "step drv srv (ChatMessageIn sock msg up now) =
     (if (sock, ''chat message'') \<in> set (listeners srv)
      then chat_message drv up now sock msg srv else srv)"
| "step drv srv (DeleteMessageIn sock messageId up1 up2) =
     (if (sock, ''delete message'') \<in> set (listeners srv)
      then delete_message drv up1 up2 sock messageId srv else srv)"
| "step drv srv (Disconnect sock) =
     (if (sock, ''disconnect'') \<in> set (listeners srv)
      then (disconnect sock srv)\<lparr>listeners := filter (\<lambda>l. fst l \<noteq> sock) (listeners srv)\<rparr>
      else srv)"

definition run :: "bson \<Rightarrow> server \<Rightarrow> input list \<Rightarrow> server" where
  "run drv srv ins = foldl (step drv) srv ins"

definition init_server :: server where
  "init_server =
     \<lparr>messagesCollection = \<lparr>docs = [], next_id = 0\<rparr>, listeners = [], emitted = [], console = []\<rparr>"

section \<open>The delete handler between its awaits\<close>









section \<open>The earlier server, \<open>src/server/index.js\<close>\<close>

text \<open>
  This server has no handshake middleware: its sockets carry no verified user. It
  stores \<open>{content, user}\<close> and broadcasts content, id string and user.
\<close>

record legacy_message =
  legacy_content :: jsval
  legacy_user :: jsval

record legacy_server =
  legacy_collection :: "legacy_message collection"
  legacy_emitted :: "(jsval \<times> string \<times> jsval) list"
  legacy_console :: "exn list"

definition legacy_chat_message ::
  "bson \<Rightarrow> bool \<Rightarrow> handshake_auth \<Rightarrow> jsval \<Rightarrow> legacy_server \<Rightarrow> legacy_server" where
  "legacy_chat_message drv up a msg srv =
     (let username = nullish (auth_username a) (JStr ''anonymous'')
      in case insertOne up \<lparr>legacy_content = msg, legacy_user = username\<rparr> (legacy_collection srv) of
           Inl e \<Rightarrow> srv\<lparr>legacy_console := legacy_console srv @ [e]\<rparr>
         | Inr (insertedId, c) \<Rightarrow>
             srv\<lparr>legacy_collection := c,
                 legacy_emitted := legacy_emitted srv @ [(msg, toString drv insertedId, username)]\<rparr>)"

definition legacy_init :: legacy_server where
  "legacy_init =
     \<lparr>legacy_collection = \<lparr>docs = [], next_id = 0\<rparr>, legacy_emitted = [], legacy_console = []\<rparr>"

section \<open>The client's form, \<open>src/public/js/chat.js\<close>\<close>

text \<open>The text field and the packets the page has sent so far.\<close>

record client =
  input_value :: string
  sent :: "(string \<times> jsval) list"

definition form_submit :: "client \<Rightarrow> client" where
  "form_submit cl =
     (if input_value cl \<noteq> []
      then cl\<lparr>sent := sent cl @ [(''chat message'', JStr (input_value cl))], input_value := []\<rparr>
      else cl)"

section \<open>A driver instance for examples\<close>

text \<open>
  Identifiers written as 24 lower-case hexadecimal digits, the form in which the
  server sends them to clients; every other value is rejected by the constructor.
\<close>

fun hex_digits :: "nat \<Rightarrow> nat \<Rightarrow> string" where
  "hex_digits 0 i = []"
| "hex_digits (Suc n) i = hex_digits n (i div 16) @ [''0123456789abcdef'' ! (i mod 16)]"

definition hex_string :: "ObjectId \<Rightarrow> string" where
  "hex_string i = hex_digits 24 i"

fun parse_hex :: "nat \<Rightarrow> string \<Rightarrow> nat option" where
  "parse_hex acc [] = Some acc"
| "parse_hex acc (ch # cs) =
     (case map_of (zip ''0123456789abcdef'' [0..<16]) ch of
        None \<Rightarrow> None
      | Some d \<Rightarrow> parse_hex (16 * acc + d) cs)"

definition sample_bson :: bson where
  "sample_bson =
     \<lparr>new_ObjectId = (\<lambda>v. case v of
                             JStr s \<Rightarrow> if length s = 24 then parse_hex 0 s else None
                           | _ \<Rightarrow> None),
      toString = hex_string\<rparr>"

definition alice :: socket where
  "alice =
     \<lparr>socket_id = ''s1'', socket_user = \<lparr>username = ''alice''\<rparr>,
      auth = \<lparr>auth_username = JStr ''alice'', serverOffset = JNum 0\<rparr>, recovered = False\<rparr>"

definition bob :: socket where
  "bob =
     \<lparr>socket_id = ''s2'', socket_user = \<lparr>username = ''bob''\<rparr>,
      auth = \<lparr>auth_username = JStr ''bob'', serverOffset = JNum 0\<rparr>, recovered = False\<rparr>"

definition bob_again :: socket where
  "bob_again =
     bob\<lparr>auth := \<lparr>auth_username = JStr ''bob'', serverOffset = JStr ''000000000000000000000000''\<rparr>\<rparr>"

definition bob_bad_offset :: socket where
  "bob_bad_offset = bob\<lparr>auth := \<lparr>auth_username = JStr ''bob'', serverOffset = JStr ''last''\<rparr>\<rparr>"

definition bob_empty_offset :: socket where
  "bob_empty_offset = bob\<lparr>auth := \<lparr>auth_username = JStr ''bob'', serverOffset = JStr []\<rparr>\<rparr>"

text \<open>Bob's session as the transport restores it: recovered, and without a user.\<close>

definition bob_resumed :: delivered where
  "bob_resumed =
     Unverified ''s2''
       \<lparr>auth_username = JStr ''bob'', serverOffset = JStr ''000000000000000000000000''\<rparr> True"

text \<open>Two clients connect; alice posts, then bob posts.\<close>

definition chat_log :: server where
  "chat_log =
     run sample_bson init_server
       [Connection (Verified alice) True, Connection (Verified bob) True,
        ChatMessageIn alice (JStr ''hi'') True 5, ChatMessageIn bob (JStr ''yo'') True 6]"

section \<open>The invariant of the log\<close>

text \<open>
  Identifiers increase strictly along the natural order of the collection, and all of
  them lie below the next identifier to hand out.
\<close>

definition log_ok :: "'d collection \<Rightarrow> bool" where
  "log_ok c \<longleftrightarrow> sorted_wrt (<) (map fst (docs c)) \<and> (\<forall>x \<in> set (docs c). fst x < next_id c)"

text \<open>
  Between two moments of a run: the counter never goes back, and a document present
  later either was present before or carries an identifier not handed out before.
\<close>

definition grows :: "'d collection \<Rightarrow> 'd collection \<Rightarrow> bool" where
  "grows c c' \<longleftrightarrow>
     next_id c \<le> next_id c' \<and> (\<forall>x \<in> set (docs c'). x \<in> set (docs c) \<or> next_id c \<le> fst x)"

section \<open>Facts about the store\<close>

lemma log_ok_distinct: "log_ok c \<Longrightarrow> distinct (map fst (docs c))"
  by (simp add: log_ok_def strict_sorted_iff)

lemma grows_refl: "grows c c"
  by (simp add: grows_def)

lemma grows_trans: "grows c c' \<Longrightarrow> grows c' c'' \<Longrightarrow> grows c c''"
  unfolding grows_def by (meson le_trans)

lemma find_by_id:
  "distinct (map fst xs) \<Longrightarrow> (k, v) \<in> set xs \<Longrightarrow>
   List.find (\<lambda>(i, d). matches (IdEq k) i) xs = Some (k, v)"
  by (induction xs) (auto simp: rev_image_eqI)

lemma find_absent:
  "k \<notin> fst ` set xs \<Longrightarrow> List.find (\<lambda>(i, d). matches (IdEq k) i) xs = None"
  by (induction xs) auto

lemma delete_first_subset: "set (delete_first q xs) \<subseteq> set xs"
  by (induction xs) auto

lemma delete_first_sorted:
  "sorted_wrt (<) (map fst xs) \<Longrightarrow> sorted_wrt (<) (map fst (delete_first q xs))"
proof (induction xs)
  case Nil
  then show ?case by simp
next
  case (Cons x xs)
  have "set (delete_first q xs) \<subseteq> set xs"
    by (rule delete_first_subset)
  with Cons show ?case by (auto dest: subsetD)
qed


lemma insertOne_down: "insertOne False d c = Inl MongoError"
  by (simp add: insertOne_def)

lemma log_ok_append:
  "log_ok c \<Longrightarrow> log_ok (c\<lparr>docs := docs c @ [(next_id c, d)], next_id := Suc (next_id c)\<rparr>)"
  by (auto simp: log_ok_def sorted_wrt_append less_Suc_eq)

lemma grows_append:
  "grows c (c\<lparr>docs := docs c @ [(next_id c, d)], next_id := Suc (next_id c)\<rparr>)"
  by (auto simp: grows_def)

lemma log_ok_delete: "log_ok c \<Longrightarrow> log_ok (c\<lparr>docs := delete_first q (docs c)\<rparr>)"
  using delete_first_subset [of q "docs c"] by (auto simp: log_ok_def delete_first_sorted)

lemma grows_delete: "grows c (c\<lparr>docs := delete_first q (docs c)\<rparr>)"
  using delete_first_subset [of q "docs c"] by (auto simp: grows_def)

section \<open>Facts about the handlers\<close>

lemma chat_message_up:
  "chat_message drv True now sock msg srv =
     io_emit (ChatMessage msg (toString drv (next_id (messagesCollection srv)))
                (username (socket_user sock)) now)
       (srv\<lparr>messagesCollection :=
              (messagesCollection srv)
                \<lparr>docs := docs (messagesCollection srv) @
                    [(next_id (messagesCollection srv),
                      \<lparr>content = msg, user = username (socket_user sock), timestamp = now\<rparr>)],
                 next_id := Suc (next_id (messagesCollection srv))\<rparr>\<rparr>)"
  by (simp add: chat_message_def chat_message_try_def insertOne_def)

lemma chat_message_down:
  "chat_message drv False now sock msg srv = console_write (SaveOrEmitError MongoError) srv"
  by (simp add: chat_message_def chat_message_try_def insertOne_def)

lemma chat_message_collection:
  "messagesCollection (chat_message drv up now sock msg srv) =
     (if up
      then (messagesCollection srv)
             \<lparr>docs := docs (messagesCollection srv) @
                 [(next_id (messagesCollection srv),
                   \<lparr>content = msg, user = username (socket_user sock), timestamp = now\<rparr>)],
              next_id := Suc (next_id (messagesCollection srv))\<rparr>
      else messagesCollection srv)"
  by (cases up) (simp_all add: chat_message_up chat_message_down io_emit_def console_write_def)

lemma delete_message_collection:
  "messagesCollection (delete_message drv up1 up2 sock messageId srv) = messagesCollection srv \<or>
   (\<exists>k. messagesCollection (delete_message drv up1 up2 sock messageId srv) =
          (messagesCollection srv)\<lparr>docs := delete_first (IdEq k) (docs (messagesCollection srv))\<rparr>)"
  by (auto simp: delete_message_def delete_message_try_def findOne_def deleteOne_def
        io_emit_def console_write_def split: option.splits if_splits)

lemma replay_fields:
  "messagesCollection (foldl (\<lambda>s row. socket_emit sock (f row) s) srv rows) = messagesCollection srv \<and>
   listeners (foldl (\<lambda>s row. socket_emit sock (f row) s) srv rows) = listeners srv \<and>
   console (foldl (\<lambda>s row. socket_emit sock (f row) s) srv rows) = console srv \<and>
   emitted (foldl (\<lambda>s row. socket_emit sock (f row) s) srv rows) =
     emitted srv @ map (\<lambda>row. SocketEmit (socket_id sock) (f row)) rows"
  by (induction rows arbitrary: srv) (simp_all add: socket_emit_def)

lemma recovery_try_collection:
  "recovery_try drv up sock srv = Inr srv' \<Longrightarrow> messagesCollection srv' = messagesCollection srv"
  by (auto simp: recovery_try_def replay_fields split: sum.splits)

lemma connection_collection:
  "messagesCollection (connection drv up sock srv) = messagesCollection srv"
  by (auto simp: connection_def Let_def console_write_def socket_on_def
        dest!: recovery_try_collection split: sum.splits)

lemma recovery_results_filter:
  "recovery_results drv True sock c = Inr rows \<Longrightarrow>
   \<exists>q. rows = filter (\<lambda>(i, d). matches q i) (docs c)"
  by (auto simp: recovery_results_def find_toArray_def split: sum.splits)

lemma step_collection:
  assumes ok: "log_ok (messagesCollection srv)"
  shows "log_ok (messagesCollection (step drv srv i)) \<and>
         grows (messagesCollection srv) (messagesCollection (step drv srv i))"
proof (cases i)
  case (Connection d up)
  with ok show ?thesis by (cases d) (simp_all add: connection_collection grows_refl)
next
  case (ChatMessageIn sock msg up now)
  with ok show ?thesis
    by (simp add: chat_message_collection log_ok_append grows_append grows_refl)
next
  case (DeleteMessageIn sock messageId up1 up2)
  from delete_message_collection [of drv up1 up2 sock messageId srv]
  have "log_ok (messagesCollection (delete_message drv up1 up2 sock messageId srv)) \<and>
        grows (messagesCollection srv) (messagesCollection (delete_message drv up1 up2 sock messageId srv))"
    using ok by (auto simp: log_ok_delete grows_delete grows_refl)
  with DeleteMessageIn ok show ?thesis by (simp add: grows_refl)
next
  case (Disconnect sock)
  with ok show ?thesis by (simp add: disconnect_def console_write_def grows_refl)
qed

lemma run_collection:
  "log_ok (messagesCollection srv) \<Longrightarrow>
   log_ok (messagesCollection (run drv srv ins)) \<and>
   grows (messagesCollection srv) (messagesCollection (run drv srv ins))"
proof (induction ins arbitrary: srv)
  case Nil
  then show ?case by (simp add: run_def grows_refl)
next
  case (Cons i ins)
  from Cons.prems have s: "log_ok (messagesCollection (step drv srv i))"
    and g: "grows (messagesCollection srv) (messagesCollection (step drv srv i))"
    using step_collection by blast+
  from Cons.IH [OF s] g show ?case
    by (auto simp: run_def intro: grows_trans)
qed

lemma run_append: "run drv srv (xs @ ys) = run drv (run drv srv xs) ys"
  by (simp add: run_def)

lemma log_ok_init: "log_ok (messagesCollection init_server)"
  by (simp add: init_server_def log_ok_def)

section \<open>The examples, evaluated\<close>

lemma sample_id0: "new_ObjectId sample_bson (JStr ''000000000000000000000000'') = Some 0"
  by code_simp

lemma sample_id_bad: "new_ObjectId sample_bson (JStr ''last'') = None"
  by (simp add: sample_bson_def)

lemma sample_str0: "toString sample_bson 0 = ''000000000000000000000000''"
  by code_simp

lemma sample_str1: "toString sample_bson (Suc 0) = ''000000000000000000000001''"
  by code_simp

lemma alice_bob: "alice \<noteq> bob" "bob \<noteq> alice"
  by (simp_all add: alice_def bob_def)

lemma connection_fresh_falsy:
  "\<not> recovered sock \<Longrightarrow> \<not> truthy (serverOffset (auth sock)) \<Longrightarrow>
   connection drv True sock srv =
     srv\<lparr>listeners := listeners srv @
            [(sock, ''disconnect''), (sock, ''chat message''), (sock, ''delete message'')],
         emitted := emitted srv @
            map (\<lambda>row. SocketEmit (socket_id sock) (row_event drv row)) (docs (messagesCollection srv)),
         console := console srv @ [UserConnected (username (socket_user sock))]\<rparr>"
  apply (rule server.equality)
  apply (simp_all add: connection_def Let_def console_write_def socket_on_def recovery_try_def
      recovery_results_def recovery_query_def find_toArray_def replay_fields)
  done

lemma chat_log_eval:
  "chat_log =
     \<lparr>messagesCollection =
        \<lparr>docs = [(0, \<lparr>content = JStr ''hi'', user = ''alice'', timestamp = 5\<rparr>),
                 (Suc 0, \<lparr>content = JStr ''yo'', user = ''bob'', timestamp = 6\<rparr>)],
         next_id = Suc (Suc 0)\<rparr>,
      listeners =
        [(alice, ''disconnect''), (alice, ''chat message''), (alice, ''delete message''),
         (bob, ''disconnect''), (bob, ''chat message''), (bob, ''delete message'')],
      emitted =
        [IoEmit (ChatMessage (JStr ''hi'') ''000000000000000000000000'' ''alice'' 5),
         IoEmit (ChatMessage (JStr ''yo'') ''000000000000000000000001'' ''bob'' 6)],
      console = [UserConnected ''alice'', UserConnected ''bob'']\<rparr>"
proof -
  have a: "\<not> recovered alice" "\<not> truthy (serverOffset (auth alice))"
    "username (socket_user alice) = ''alice''"
    by (simp_all add: alice_def)
  have b: "\<not> recovered bob" "\<not> truthy (serverOffset (auth bob))"
    "username (socket_user bob) = ''bob''"
    by (simp_all add: bob_def)
  show ?thesis
    by (simp add: chat_log_def run_def connection_fresh_falsy a b chat_message_up io_emit_def
        init_server_def sample_str0 sample_str1 alice_bob)
qed

lemma log_ok_chat_log: "log_ok (messagesCollection chat_log)"
  unfolding chat_log_def by (rule conjunct1 [OF run_collection [OF log_ok_init]])





section \<open>Facts about the suspended delete handler\<close>








section \<open>The author of a stored message\<close>

text \<open>
  C1 (amended). In \<open>src/index.js\<close> the author stored with a message appended by the
  \<open>'chat message'\<close> handler is the user name bound to the socket at the handshake,
  whatever the payload and whatever the client put into the handshake's \<open>auth\<close>
  object; nothing is stored when the insert fails. In the earlier
  \<open>src/server/index.js\<close>, which has no handshake authentication, the stored author
  is the handshake's \<open>auth.username\<close>, or \<open>'anonymous'\<close> when that is null or
  undefined.
\<close>

theorem chat_message_author_sources:
  "map (user \<circ> snd) (docs (messagesCollection (chat_message drv up now (sock\<lparr>auth := a\<rparr>) msg srv))) =
     map (user \<circ> snd) (docs (messagesCollection srv)) @
       (if up then [username (socket_user sock)] else [])
   \<and> map (legacy_user \<circ> snd) (docs (legacy_collection (legacy_chat_message drv up a msg lsrv))) =
     map (legacy_user \<circ> snd) (docs (legacy_collection lsrv)) @
       (if up then [nullish (auth_username a) (JStr ''anonymous'')] else [])"
  by (simp add: chat_message_collection legacy_chat_message_def insertOne_def Let_def)

text \<open>
  Example for C1: a payload and a handshake that both name mallory leave alice as the
  author in \<open>src/index.js\<close>; the earlier server falls back to \<open>'anonymous'\<close>.
\<close>

theorem chat_message_author_sources_witness:
  "map (user \<circ> snd)
     (docs (messagesCollection
        (chat_message sample_bson True 5
           (alice\<lparr>auth := \<lparr>auth_username = JStr ''mallory'', serverOffset = JNum 0\<rparr>\<rparr>)
           (JObj [(''user'', JStr ''mallory'')]) init_server))) = [''alice'']
   \<and> map (legacy_user \<circ> snd)
       (docs (legacy_collection
          (legacy_chat_message sample_bson True
             \<lparr>auth_username = JUndefined, serverOffset = JNum 0\<rparr> (JStr ''hi'') legacy_init))) =
       [JStr ''anonymous'']"
  using chat_message_author_sources
    [where drv = sample_bson and up = True and now = 5 and sock = alice
       and a = "\<lparr>auth_username = JStr ''mallory'', serverOffset = JNum 0\<rparr>"
       and msg = "JObj [(''user'', JStr ''mallory'')]" and srv = init_server]
    chat_message_author_sources
    [where drv = sample_bson and up = True
       and a = "\<lparr>auth_username = JUndefined, serverOffset = JNum 0\<rparr>"
       and msg = "JStr ''hi''" and lsrv = legacy_init]
  by (simp add: init_server_def legacy_init_def alice_def)

text \<open>
  C1 as stated fails on \<open>src/server/index.js\<close>: the author stored there is the name
  the client wrote into the handshake.
\<close>

theorem legacy_author_from_handshake:
  "map (legacy_user \<circ> snd)
     (docs (legacy_collection
        (legacy_chat_message sample_bson True
           \<lparr>auth_username = JStr ''mallory'', serverOffset = JNum 0\<rparr> (JStr ''hi'') legacy_init))) =
   [JStr ''mallory'']"
  by (simp add: legacy_chat_message_def insertOne_def legacy_init_def Let_def)

section \<open>Deleting a message of another author\<close>

text \<open>
  C2. A delete request for a message that exists but belongs to another author leaves
  the log and the emitted events as they were. The same request against a log that
  does not hold the message emits nothing either, and both runs write the same line
  to the server console: the requester cannot tell the two apart.
\<close>

theorem delete_by_non_author:
  assumes "log_ok (messagesCollection srv)"
    and "new_ObjectId drv messageId = Some k"
    and "(k, m) \<in> set (docs (messagesCollection srv))"
    and "user m \<noteq> username (socket_user sock)"
    and "k \<notin> fst ` set (docs (messagesCollection srv'))"
  shows "messagesCollection (delete_message drv up1 up2 sock messageId srv) = messagesCollection srv
       \<and> emitted (delete_message drv up1 up2 sock messageId srv) = emitted srv
       \<and> messagesCollection (delete_message drv up1 up2 sock messageId srv') = messagesCollection srv'
       \<and> emitted (delete_message drv up1 up2 sock messageId srv') = emitted srv'
       \<and> (\<exists>l. console (delete_message drv up1 up2 sock messageId srv) = console srv @ [l]
              \<and> console (delete_message drv up1 up2 sock messageId srv') = console srv' @ [l])"
proof -
  from assms(1) have d: "distinct (map fst (docs (messagesCollection srv)))"
    by (rule log_ok_distinct)
  have f: "List.find (\<lambda>(i, d). matches (IdEq k) i) (docs (messagesCollection srv)) = Some (k, m)"
    using d assms(3) by (rule find_by_id)
  have f': "List.find (\<lambda>(i, d). matches (IdEq k) i) (docs (messagesCollection srv')) = None"
    using assms(5) by (rule find_absent)
  show ?thesis
    using assms(2,4) f f'
    by (cases up1) (simp_all add: delete_message_def delete_message_try_def findOne_def console_write_def)
qed

text \<open>
  Example for C2: bob asks to delete the message alice posted.
\<close>

theorem delete_by_non_author_witness:
  "log_ok (messagesCollection chat_log)
   \<and> new_ObjectId sample_bson (JStr ''000000000000000000000000'') = Some 0
   \<and> (0, \<lparr>content = JStr ''hi'', user = ''alice'', timestamp = 5\<rparr>) \<in> set (docs (messagesCollection chat_log))
   \<and> user \<lparr>content = JStr ''hi'', user = ''alice'', timestamp = 5\<rparr> \<noteq> username (socket_user bob)
   \<and> 0 \<notin> fst ` set (docs (messagesCollection init_server))
   \<and> messagesCollection (delete_message sample_bson True True bob (JStr ''000000000000000000000000'') chat_log) =
       messagesCollection chat_log
   \<and> emitted (delete_message sample_bson True True bob (JStr ''000000000000000000000000'') chat_log) =
       emitted chat_log
   \<and> emitted (delete_message sample_bson True True bob (JStr ''000000000000000000000000'') init_server) =
       emitted init_server"
proof -
  have h1: "log_ok (messagesCollection chat_log)"
    by (rule log_ok_chat_log)
  have h2: "new_ObjectId sample_bson (JStr ''000000000000000000000000'') = Some 0"
    by (rule sample_id0)
  have h3: "(0, \<lparr>content = JStr ''hi'', user = ''alice'', timestamp = 5\<rparr>)
              \<in> set (docs (messagesCollection chat_log))"
    by (simp add: chat_log_eval)
  have h4: "user \<lparr>content = JStr ''hi'', user = ''alice'', timestamp = 5\<rparr> \<noteq> username (socket_user bob)"
    by (simp add: bob_def)
  have h5: "0 \<notin> fst ` set (docs (messagesCollection init_server))"
    by (simp add: init_server_def)
  from delete_by_non_author [OF h1 h2 h3 h4 h5, of True True] h1 h2 h3 h4 h5
  show ?thesis by blast
qed

section \<open>Identifiers along a run\<close>

text \<open>
  C3. Along every run (connections, messages and deletions of any sockets, in any
  order, with any store failures) from a well-formed log, the identifiers in the log
  increase strictly in insertion order and are pairwise different, and a message
  appended later carries an identifier above those of all messages that were in the
  log before, deleted since or not.
\<close>

theorem ids_strictly_increasing:
  assumes "log_ok (messagesCollection srv)"
  shows "sorted_wrt (<) (map fst (docs (messagesCollection (run drv srv (ins1 @ ins2)))))
       \<and> distinct (map fst (docs (messagesCollection (run drv srv (ins1 @ ins2)))))
       \<and> (\<forall>x \<in> set (docs (messagesCollection (run drv srv ins1))).
            \<forall>y \<in> set (docs (messagesCollection (run drv srv (ins1 @ ins2)))).
              y \<in> set (docs (messagesCollection (run drv srv ins1))) \<or> fst x < fst y)"
proof -
  let ?c1 = "messagesCollection (run drv srv ins1)"
  let ?c2 = "messagesCollection (run drv srv (ins1 @ ins2))"
  have ok1: "log_ok ?c1"
    using run_collection [OF assms] by blast
  have ok2: "log_ok ?c2" and g: "grows ?c1 ?c2"
    using run_collection [OF ok1, of drv ins2] by (simp_all add: run_append)
  have "sorted_wrt (<) (map fst (docs ?c2))"
    using ok2 by (simp add: log_ok_def)
  moreover have "distinct (map fst (docs ?c2))"
    using ok2 by (rule log_ok_distinct)
  moreover have "\<forall>x \<in> set (docs ?c1). \<forall>y \<in> set (docs ?c2). y \<in> set (docs ?c1) \<or> fst x < fst y"
  proof (intro ballI)
    fix x y
    assume x: "x \<in> set (docs ?c1)" and y: "y \<in> set (docs ?c2)"
    from ok1 x have "fst x < next_id ?c1" by (simp add: log_ok_def)
    moreover from g y have "y \<in> set (docs ?c1) \<or> next_id ?c1 \<le> fst y" by (simp add: grows_def)
    ultimately show "y \<in> set (docs ?c1) \<or> fst x < fst y" by auto
  qed
  ultimately show ?thesis by blast
qed

text \<open>
  Example for C3: two posts get 0 and 1; after the first is deleted the next post
  gets 2.
\<close>

theorem ids_strictly_increasing_witness:
  "log_ok (messagesCollection init_server)
   \<and> map fst (docs (messagesCollection (run sample_bson init_server
        [Connection (Verified alice) True, Connection (Verified bob) True,
         ChatMessageIn alice (JStr ''hi'') True 5, ChatMessageIn bob (JStr ''yo'') True 6]))) = [0, 1]
   \<and> map fst (docs (messagesCollection (run sample_bson init_server
        ([Connection (Verified alice) True, Connection (Verified bob) True,
          ChatMessageIn alice (JStr ''hi'') True 5, ChatMessageIn bob (JStr ''yo'') True 6] @
         [DeleteMessageIn alice (JStr ''000000000000000000000000'') True True,
          ChatMessageIn bob (JStr ''again'') True 9])))) = [1, 2]
   \<and> sorted_wrt (<) (map fst (docs (messagesCollection (run sample_bson init_server
        ([Connection (Verified alice) True, Connection (Verified bob) True,
          ChatMessageIn alice (JStr ''hi'') True 5, ChatMessageIn bob (JStr ''yo'') True 6] @
         [DeleteMessageIn alice (JStr ''000000000000000000000000'') True True,
          ChatMessageIn bob (JStr ''again'') True 9])))))"
proof -
  have h: "log_ok (messagesCollection init_server)"
    by (rule log_ok_init)
  have e1: "run sample_bson init_server
        [Connection (Verified alice) True, Connection (Verified bob) True,
         ChatMessageIn alice (JStr ''hi'') True 5, ChatMessageIn bob (JStr ''yo'') True 6] = chat_log"
    by (simp add: chat_log_def)
  have d: "docs (messagesCollection
             (delete_message sample_bson True True alice (JStr ''000000000000000000000000'') chat_log)) =
           [(Suc 0, \<lparr>content = JStr ''yo'', user = ''bob'', timestamp = 6\<rparr>)]"
    by (simp add: delete_message_def delete_message_try_def sample_id0 findOne_def deleteOne_def
        chat_log_eval alice_def io_emit_def)
  have n: "next_id (messagesCollection
             (delete_message sample_bson True True alice (JStr ''000000000000000000000000'') chat_log)) =
           Suc (Suc 0)"
    by (simp add: delete_message_def delete_message_try_def sample_id0 findOne_def deleteOne_def
        chat_log_eval alice_def io_emit_def)
  have l: "listeners
             (delete_message sample_bson True True alice (JStr ''000000000000000000000000'') chat_log) =
           listeners chat_log"
    by (simp add: delete_message_def delete_message_try_def sample_id0 findOne_def deleteOne_def
        chat_log_eval alice_def io_emit_def)
  have lc: "(bob, ''chat message'') \<in> set (listeners chat_log)"
    "(alice, ''delete message'') \<in> set (listeners chat_log)"
    by (simp_all add: chat_log_eval)
  have e2: "map fst (docs (messagesCollection (run sample_bson chat_log
         [DeleteMessageIn alice (JStr ''000000000000000000000000'') True True,
          ChatMessageIn bob (JStr ''again'') True 9]))) = [1, 2]"
    by (simp add: run_def l d n lc chat_message_collection)
  from ids_strictly_increasing [OF h, of sample_bson
        "[Connection (Verified alice) True, Connection (Verified bob) True,
          ChatMessageIn alice (JStr ''hi'') True 5, ChatMessageIn bob (JStr ''yo'') True 6]"
        "[DeleteMessageIn alice (JStr ''000000000000000000000000'') True True,
          ChatMessageIn bob (JStr ''again'') True 9]"]
  have "sorted_wrt (<) (map fst (docs (messagesCollection (run sample_bson init_server
        ([Connection (Verified alice) True, Connection (Verified bob) True,
          ChatMessageIn alice (JStr ''hi'') True 5, ChatMessageIn bob (JStr ''yo'') True 6] @
         [DeleteMessageIn alice (JStr ''000000000000000000000000'') True True,
          ChatMessageIn bob (JStr ''again'') True 9])))))"
    by blast
  moreover have "map fst (docs (messagesCollection (run sample_bson init_server
        [Connection (Verified alice) True, Connection (Verified bob) True,
         ChatMessageIn alice (JStr ''hi'') True 5, ChatMessageIn bob (JStr ''yo'') True 6]))) = [0, 1]"
    by (simp only: e1) (simp add: chat_log_eval)
  moreover have "map fst (docs (messagesCollection (run sample_bson init_server
        ([Connection (Verified alice) True, Connection (Verified bob) True,
          ChatMessageIn alice (JStr ''hi'') True 5, ChatMessageIn bob (JStr ''yo'') True 6] @
         [DeleteMessageIn alice (JStr ''000000000000000000000000'') True True,
          ChatMessageIn bob (JStr ''again'') True 9])))) = [1, 2]"
    by (simp only: run_append e1 e2)
  ultimately show ?thesis using h by blast
qed

section \<open>Recovery of missed messages\<close>

text \<open>
  C4. With the store available and a well-formed log, the recovery query returns the
  whole log when the declared offset is absent, zero or otherwise falsy, and exactly
  the messages with an id above \<open>k\<close> when the offset is the valid id \<open>k\<close>; the
  result is in ascending id order, and a fresh connection is sent exactly these rows,
  in this order, on its own socket.
\<close>

theorem recovery_returns_suffix:
  assumes "log_ok c"
  shows "(\<not> truthy (serverOffset (auth sock)) \<longrightarrow> recovery_results drv True sock c = Inr (docs c))
       \<and> (truthy (serverOffset (auth sock)) \<and> new_ObjectId drv (serverOffset (auth sock)) = Some k \<longrightarrow>
            recovery_results drv True sock c = Inr (filter (\<lambda>row. k < fst row) (docs c)))
       \<and> (\<forall>rows. recovery_results drv True sock c = Inr rows \<longrightarrow> sorted_wrt (<) (map fst rows))
       \<and> (\<forall>rows. \<not> recovered sock \<and> messagesCollection srv = c \<and>
              recovery_results drv True sock c = Inr rows \<longrightarrow>
            emitted (connection drv True sock srv) =
              emitted srv @ map (\<lambda>row. SocketEmit (socket_id sock) (row_event drv row)) rows)"
proof -
  have all: "\<not> truthy (serverOffset (auth sock)) \<longrightarrow> recovery_results drv True sock c = Inr (docs c)"
    by (simp add: recovery_results_def recovery_query_def find_toArray_def)
  have gt: "truthy (serverOffset (auth sock)) \<and> new_ObjectId drv (serverOffset (auth sock)) = Some k \<longrightarrow>
            recovery_results drv True sock c = Inr (filter (\<lambda>row. k < fst row) (docs c))"
    by (simp add: recovery_results_def recovery_query_def find_toArray_def case_prod_unfold)
  have srt: "\<forall>rows. recovery_results drv True sock c = Inr rows \<longrightarrow> sorted_wrt (<) (map fst rows)"
  proof (intro allI impI)
    fix rows assume "recovery_results drv True sock c = Inr rows"
    then obtain q where "rows = filter (\<lambda>(i, d). matches q i) (docs c)" by (auto dest: recovery_results_filter)
    moreover have "sorted_wrt (<) (map fst (docs c))" using assms by (simp add: log_ok_def)
    ultimately show "sorted_wrt (<) (map fst rows)"
      by (simp add: sorted_wrt_map sorted_wrt_filter)
  qed
  have em: "\<forall>rows. \<not> recovered sock \<and> messagesCollection srv = c \<and>
              recovery_results drv True sock c = Inr rows \<longrightarrow>
            emitted (connection drv True sock srv) =
              emitted srv @ map (\<lambda>row. SocketEmit (socket_id sock) (row_event drv row)) rows"
    by (simp add: connection_def Let_def recovery_try_def replay_fields console_write_def socket_on_def)
  from all gt srt em show ?thesis by blast
qed

text \<open>
  Example for C4: alice declares offset 0 and gets both messages; bob declares the
  first id and gets the second message only.
\<close>

theorem recovery_returns_suffix_witness:
  "log_ok (messagesCollection chat_log)
   \<and> \<not> truthy (serverOffset (auth alice))
   \<and> recovery_results sample_bson True alice (messagesCollection chat_log) =
       Inr [(0, \<lparr>content = JStr ''hi'', user = ''alice'', timestamp = 5\<rparr>),
            (1, \<lparr>content = JStr ''yo'', user = ''bob'', timestamp = 6\<rparr>)]
   \<and> truthy (serverOffset (auth bob_again))
   \<and> new_ObjectId sample_bson (serverOffset (auth bob_again)) = Some 0
   \<and> \<not> recovered bob_again
   \<and> recovery_results sample_bson True bob_again (messagesCollection chat_log) =
       Inr [(1, \<lparr>content = JStr ''yo'', user = ''bob'', timestamp = 6\<rparr>)]
   \<and> emitted (connection sample_bson True bob_again chat_log) =
       emitted chat_log @
         [SocketEmit ''s2'' (ChatMessage (JStr ''yo'') ''000000000000000000000001'' ''bob'' 6)]"
proof -
  have h: "log_ok (messagesCollection chat_log)"
    by (rule log_ok_chat_log)
  have a: "\<not> truthy (serverOffset (auth alice))"
    by (simp add: alice_def)
  have b: "truthy (serverOffset (auth bob_again))"
    "new_ObjectId sample_bson (serverOffset (auth bob_again)) = Some 0"
    "\<not> recovered bob_again"
    by (simp_all add: bob_again_def bob_def sample_id0)
  have dc: "docs (messagesCollection chat_log) =
              [(0, \<lparr>content = JStr ''hi'', user = ''alice'', timestamp = 5\<rparr>),
               (1, \<lparr>content = JStr ''yo'', user = ''bob'', timestamp = 6\<rparr>)]"
    by (simp add: chat_log_eval)
  from recovery_returns_suffix [OF h, of alice sample_bson] a
  have r1: "recovery_results sample_bson True alice (messagesCollection chat_log) =
              Inr (docs (messagesCollection chat_log))"
    by blast
  from recovery_returns_suffix [OF h, of bob_again sample_bson 0 chat_log] b
  have r2: "recovery_results sample_bson True bob_again (messagesCollection chat_log) =
              Inr (filter (\<lambda>row. 0 < fst row) (docs (messagesCollection chat_log)))"
    and r3: "\<forall>rows. recovery_results sample_bson True bob_again (messagesCollection chat_log) = Inr rows \<longrightarrow>
              emitted (connection sample_bson True bob_again chat_log) =
                emitted chat_log @ map (\<lambda>row. SocketEmit (socket_id bob_again) (row_event sample_bson row)) rows"
    by blast+
  have r2': "recovery_results sample_bson True bob_again (messagesCollection chat_log) =
              Inr [(1, \<lparr>content = JStr ''yo'', user = ''bob'', timestamp = 6\<rparr>)]"
    using r2 by (simp add: dc)
  have "emitted (connection sample_bson True bob_again chat_log) =
       emitted chat_log @
         [SocketEmit ''s2'' (ChatMessage (JStr ''yo'') ''000000000000000000000001'' ''bob'' 6)]"
    using r3 r2' by (simp add: row_event_def bob_again_def bob_def sample_str1)
  with h a b r1 r2' show ?thesis
    by (simp add: dc)
qed

text \<open>
  C5. A connection that arrives with \<open>recovered\<close> set is sent nothing and the log
  is not touched, whatever offset it declares. When it arrives without a user, as a
  session restored by the transport does, the handler throws at its first statement
  and nothing at all changes; if it carries a user, the guard skips the recovery
  block.
\<close>

theorem resumed_connection_no_replay:
  assumes "delivered_recovered d"
  shows "emitted (step drv srv (Connection d up)) = emitted srv
       \<and> messagesCollection (step drv srv (Connection d up)) = messagesCollection srv
       \<and> (case d of
            Unverified sid a r \<Rightarrow>
              on_connection drv up d srv = Inl TypeError
              \<and> step drv srv (Connection d up) = srv
          | Verified sock \<Rightarrow>
              on_connection drv up d srv = Inr (connection drv up sock srv)
              \<and> emitted (connection drv up sock srv) = emitted srv
              \<and> messagesCollection (connection drv up sock srv) = messagesCollection srv)"
  using assms
  by (cases d) (simp_all add: connection_def Let_def console_write_def socket_on_def)

text \<open>
  Example for C5: bob's session is restored by the transport, declaring the first id
  as offset.
\<close>

theorem resumed_connection_no_replay_witness:
  "delivered_recovered bob_resumed
   \<and> on_connection sample_bson True bob_resumed chat_log = Inl TypeError
   \<and> step sample_bson chat_log (Connection bob_resumed True) = chat_log
   \<and> emitted (step sample_bson chat_log (Connection bob_resumed True)) = emitted chat_log
   \<and> messagesCollection (step sample_bson chat_log (Connection bob_resumed True)) =
       messagesCollection chat_log"
proof -
  have h: "delivered_recovered bob_resumed"
    by (simp add: bob_resumed_def)
  from resumed_connection_no_replay [OF h, of sample_bson chat_log True] h
  show ?thesis by (simp add: bob_resumed_def)
qed

section \<open>Failures of the store and of the id constructor\<close>

text \<open>
  C6. When the insert of an incoming chat message fails, the \<open>try\<close> block ends with
  that exception, the handler catches it and returns with one more console line and
  nothing else changed: no event is emitted, to the sender or anyone, and the log and
  the listeners are as before.
\<close>

theorem failed_insert_is_dropped:
  assumes "insertOne up \<lparr>content = msg, user = username (socket_user sock), timestamp = now\<rparr>
             (messagesCollection srv) = Inl e"
  shows "chat_message_try drv up \<lparr>content = msg, user = username (socket_user sock), timestamp = now\<rparr> srv = Inl e
       \<and> chat_message drv up now sock msg srv = console_write (SaveOrEmitError e) srv
       \<and> emitted (chat_message drv up now sock msg srv) = emitted srv
       \<and> messagesCollection (chat_message drv up now sock msg srv) = messagesCollection srv
       \<and> listeners (chat_message drv up now sock msg srv) = listeners srv"
  using assms by (simp add: chat_message_def chat_message_try_def console_write_def)

text \<open>
  Example for C6: the store is down when alice posts.
\<close>

theorem failed_insert_is_dropped_witness:
  "insertOne False \<lparr>content = JStr ''lost'', user = username (socket_user alice), timestamp = 9\<rparr>
     (messagesCollection chat_log) = Inl MongoError
   \<and> chat_message sample_bson False 9 alice (JStr ''lost'') chat_log =
       console_write (SaveOrEmitError MongoError) chat_log
   \<and> emitted (chat_message sample_bson False 9 alice (JStr ''lost'') chat_log) = emitted chat_log
   \<and> messagesCollection (chat_message sample_bson False 9 alice (JStr ''lost'') chat_log) =
       messagesCollection chat_log"
proof -
  have h: "insertOne False \<lparr>content = JStr ''lost'', user = username (socket_user alice), timestamp = 9\<rparr>
             (messagesCollection chat_log) = Inl MongoError"
    by (rule insertOne_down)
  from failed_insert_is_dropped [OF h, of sample_bson] h
  show ?thesis by blast
qed




text \<open>
  C9. When the \<open>ObjectId\<close> constructor rejects the requested id, the \<open>try\<close> block
  of the delete handler ends with that exception and the handler returns with one
  more console line: log, emitted events and listeners are unchanged, and the next
  chat message of the same socket is handled as usual.
\<close>

theorem malformed_delete_id_is_caught:
  assumes "new_ObjectId drv messageId = None"
  shows "delete_message_try drv up1 up2 sock messageId srv = Inl BSONError
       \<and> delete_message drv up1 up2 sock messageId srv = console_write (DeleteError BSONError) srv
       \<and> messagesCollection (delete_message drv up1 up2 sock messageId srv) = messagesCollection srv
       \<and> emitted (delete_message drv up1 up2 sock messageId srv) = emitted srv
       \<and> listeners (delete_message drv up1 up2 sock messageId srv) = listeners srv
       \<and> ((sock, ''chat message'') \<in> set (listeners srv) \<longrightarrow>
            step drv (delete_message drv up1 up2 sock messageId srv) (ChatMessageIn sock msg up now) =
            chat_message drv up now sock msg (delete_message drv up1 up2 sock messageId srv))"
  using assms by (simp add: delete_message_def delete_message_try_def console_write_def)

text \<open>
  Example for C9: bob asks to delete \<open>'last'\<close>.
\<close>

theorem malformed_delete_id_is_caught_witness:
  "new_ObjectId sample_bson (JStr ''last'') = None
   \<and> (bob, ''chat message'') \<in> set (listeners chat_log)
   \<and> delete_message_try sample_bson True True bob (JStr ''last'') chat_log = Inl BSONError
   \<and> messagesCollection (delete_message sample_bson True True bob (JStr ''last'') chat_log) =
       messagesCollection chat_log
   \<and> emitted (delete_message sample_bson True True bob (JStr ''last'') chat_log) = emitted chat_log
   \<and> step sample_bson (delete_message sample_bson True True bob (JStr ''last'') chat_log)
        (ChatMessageIn bob (JStr ''still here'') True 9) =
       chat_message sample_bson True 9 bob (JStr ''still here'')
         (delete_message sample_bson True True bob (JStr ''last'') chat_log)"
proof -
  have h: "new_ObjectId sample_bson (JStr ''last'') = None"
    by (rule sample_id_bad)
  have l: "(bob, ''chat message'') \<in> set (listeners chat_log)"
    by (simp add: chat_log_eval)
  from malformed_delete_id_is_caught [OF h, of True True bob chat_log "JStr ''still here''" True 9] h l
  show ?thesis by blast
qed

text \<open>
  C10 (amended). On a fresh connection whose declared offset is truthy and rejected
  by the \<open>ObjectId\<close> constructor, the recovery ends with that exception, which is
  caught: nothing is emitted and the log is untouched, the three listeners are
  registered, and a chat message the socket sends next is appended and broadcast. A
  declared offset that is falsy (the empty string, \<open>false\<close>, 0, null) never reaches
  the constructor: the whole log is replayed to the socket, and the listeners are
  registered as well.
\<close>

theorem malformed_offset_is_caught:
  assumes "\<not> recovered sock"
  shows "(truthy (serverOffset (auth sock)) \<and> new_ObjectId drv (serverOffset (auth sock)) = None \<longrightarrow>
           recovery_results drv up sock (messagesCollection srv) = Inl BSONError
         \<and> emitted (connection drv up sock srv) = emitted srv
         \<and> messagesCollection (connection drv up sock srv) = messagesCollection srv
         \<and> listeners (connection drv up sock srv) =
             listeners srv @ [(sock, ''disconnect''), (sock, ''chat message''), (sock, ''delete message'')]
         \<and> console (connection drv up sock srv) =
             console srv @ [UserConnected (username (socket_user sock)), RecoverError BSONError]
         \<and> docs (messagesCollection
              (step drv (connection drv up sock srv) (ChatMessageIn sock msg True now))) =
             docs (messagesCollection srv) @
               [(next_id (messagesCollection srv),
                 \<lparr>content = msg, user = username (socket_user sock), timestamp = now\<rparr>)]
         \<and> emitted (step drv (connection drv up sock srv) (ChatMessageIn sock msg True now)) =
             emitted srv @
               [IoEmit (ChatMessage msg (toString drv (next_id (messagesCollection srv)))
                          (username (socket_user sock)) now)])
       \<and> (\<not> truthy (serverOffset (auth sock)) \<longrightarrow>
           recovery_results drv True sock (messagesCollection srv) = Inr (docs (messagesCollection srv))
         \<and> emitted (connection drv True sock srv) =
             emitted srv @
               map (\<lambda>row. SocketEmit (socket_id sock) (row_event drv row)) (docs (messagesCollection srv))
         \<and> messagesCollection (connection drv True sock srv) = messagesCollection srv
         \<and> listeners (connection drv True sock srv) =
             listeners srv @ [(sock, ''disconnect''), (sock, ''chat message''), (sock, ''delete message'')])"
proof (rule conjI; rule impI)
  assume t: "truthy (serverOffset (auth sock)) \<and> new_ObjectId drv (serverOffset (auth sock)) = None"
  have r: "\<forall>c. recovery_results drv up sock c = Inl BSONError"
    using t by (simp add: recovery_results_def recovery_query_def)
  have c: "connection drv up sock srv =
             srv\<lparr>listeners := listeners srv @
                    [(sock, ''disconnect''), (sock, ''chat message''), (sock, ''delete message'')],
                 console := console srv @
                    [UserConnected (username (socket_user sock)), RecoverError BSONError]\<rparr>"
    using assms by (simp add: connection_def Let_def recovery_try_def r console_write_def socket_on_def)
  show "recovery_results drv up sock (messagesCollection srv) = Inl BSONError
         \<and> emitted (connection drv up sock srv) = emitted srv
         \<and> messagesCollection (connection drv up sock srv) = messagesCollection srv
         \<and> listeners (connection drv up sock srv) =
             listeners srv @ [(sock, ''disconnect''), (sock, ''chat message''), (sock, ''delete message'')]
         \<and> console (connection drv up sock srv) =
             console srv @ [UserConnected (username (socket_user sock)), RecoverError BSONError]
         \<and> docs (messagesCollection
              (step drv (connection drv up sock srv) (ChatMessageIn sock msg True now))) =
             docs (messagesCollection srv) @
               [(next_id (messagesCollection srv),
                 \<lparr>content = msg, user = username (socket_user sock), timestamp = now\<rparr>)]
         \<and> emitted (step drv (connection drv up sock srv) (ChatMessageIn sock msg True now)) =
             emitted srv @
               [IoEmit (ChatMessage msg (toString drv (next_id (messagesCollection srv)))
                          (username (socket_user sock)) now)]"
    by (simp add: r c chat_message_up io_emit_def)
next
  assume f: "\<not> truthy (serverOffset (auth sock))"
  show "recovery_results drv True sock (messagesCollection srv) = Inr (docs (messagesCollection srv))
         \<and> emitted (connection drv True sock srv) =
             emitted srv @
               map (\<lambda>row. SocketEmit (socket_id sock) (row_event drv row)) (docs (messagesCollection srv))
         \<and> messagesCollection (connection drv True sock srv) = messagesCollection srv
         \<and> listeners (connection drv True sock srv) =
             listeners srv @ [(sock, ''disconnect''), (sock, ''chat message''), (sock, ''delete message'')]"
    using f by (simp add: connection_fresh_falsy [OF assms f] recovery_results_def recovery_query_def find_toArray_def)
qed

text \<open>
  Example for C10: bob connects declaring the offset \<open>'last'\<close>, and declaring the
  empty string.
\<close>

theorem malformed_offset_is_caught_witness:
  "\<not> recovered bob_bad_offset
   \<and> truthy (serverOffset (auth bob_bad_offset))
   \<and> new_ObjectId sample_bson (serverOffset (auth bob_bad_offset)) = None
   \<and> emitted (connection sample_bson True bob_bad_offset chat_log) = emitted chat_log
   \<and> listeners (connection sample_bson True bob_bad_offset chat_log) =
       listeners chat_log @
         [(bob_bad_offset, ''disconnect''), (bob_bad_offset, ''chat message''),
          (bob_bad_offset, ''delete message'')]
   \<and> emitted (step sample_bson (connection sample_bson True bob_bad_offset chat_log)
        (ChatMessageIn bob_bad_offset (JStr ''back'') True 9)) =
       emitted chat_log @
         [IoEmit (ChatMessage (JStr ''back'') (toString sample_bson (next_id (messagesCollection chat_log)))
                    (username (socket_user bob_bad_offset)) 9)]
   \<and> \<not> recovered bob_empty_offset
   \<and> \<not> truthy (serverOffset (auth bob_empty_offset))
   \<and> emitted (connection sample_bson True bob_empty_offset chat_log) =
       emitted chat_log @
         map (\<lambda>row. SocketEmit (socket_id bob_empty_offset) (row_event sample_bson row))
           (docs (messagesCollection chat_log))"
proof -
  have h: "\<not> recovered bob_bad_offset" "truthy (serverOffset (auth bob_bad_offset))"
    "new_ObjectId sample_bson (serverOffset (auth bob_bad_offset)) = None"
    by (simp_all add: bob_bad_offset_def bob_def sample_id_bad)
  have g: "\<not> recovered bob_empty_offset" "\<not> truthy (serverOffset (auth bob_empty_offset))"
    by (simp_all add: bob_empty_offset_def bob_def)
  from malformed_offset_is_caught [OF h(1), of sample_bson True chat_log "JStr ''back''" 9]
    malformed_offset_is_caught [OF g(1), of sample_bson True chat_log] h g
  show ?thesis by blast
qed

text \<open>
  C10 as stated fails for the empty string: it is declared and is no id, yet bob is
  sent both messages of the log.
\<close>

theorem empty_offset_replays_log:
  "new_ObjectId sample_bson (serverOffset (auth bob_empty_offset)) = None
   \<and> \<not> recovered bob_empty_offset
   \<and> emitted (connection sample_bson True bob_empty_offset chat_log) =
       emitted chat_log @
         [SocketEmit ''s2'' (ChatMessage (JStr ''hi'') ''000000000000000000000000'' ''alice'' 5),
          SocketEmit ''s2'' (ChatMessage (JStr ''yo'') ''000000000000000000000001'' ''bob'' 6)]"
proof -
  have g: "\<not> recovered bob_empty_offset" "\<not> truthy (serverOffset (auth bob_empty_offset))"
    "socket_id bob_empty_offset = ''s2''"
    by (simp_all add: bob_empty_offset_def bob_def)
  have n: "new_ObjectId sample_bson (serverOffset (auth bob_empty_offset)) = None"
    by (simp add: bob_empty_offset_def sample_bson_def)
  have d: "docs (messagesCollection chat_log) =
             [(0, \<lparr>content = JStr ''hi'', user = ''alice'', timestamp = 5\<rparr>),
              (Suc 0, \<lparr>content = JStr ''yo'', user = ''bob'', timestamp = 6\<rparr>)]"
    by (simp add: chat_log_eval)
  have "emitted (connection sample_bson True bob_empty_offset chat_log) =
       emitted chat_log @
         [SocketEmit ''s2'' (ChatMessage (JStr ''hi'') ''000000000000000000000000'' ''alice'' 5),
          SocketEmit ''s2'' (ChatMessage (JStr ''yo'') ''000000000000000000000001'' ''bob'' 6)]"
    by (simp add: connection_fresh_falsy [OF g(1) g(2)] g(3) d row_event_def sample_str0 sample_str1)
  with n g show ?thesis by simp
qed

section \<open>Empty content\<close>

text \<open>
  C8 (amended). The page does not send an empty input: its submit handler leaves
  the client unchanged then, and sends the text otherwise. The server applies no
  check of its own: a \<open>'chat message'\<close> event with empty content that reaches it with
  the store available is appended and broadcast like any other.
\<close>

theorem empty_content_only_client_guard:
  "(input_value cl = [] \<longrightarrow> form_submit cl = cl)
   \<and> (input_value cl \<noteq> [] \<longrightarrow>
        sent (form_submit cl) = sent cl @ [(''chat message'', JStr (input_value cl))])
   \<and> docs (messagesCollection (chat_message drv True now sock (JStr []) srv)) =
        docs (messagesCollection srv) @
          [(next_id (messagesCollection srv),
            \<lparr>content = JStr [], user = username (socket_user sock), timestamp = now\<rparr>)]
   \<and> emitted (chat_message drv True now sock (JStr []) srv) =
        emitted srv @
          [IoEmit (ChatMessage (JStr []) (toString drv (next_id (messagesCollection srv)))
                     (username (socket_user sock)) now)]"
  by (simp add: form_submit_def chat_message_up io_emit_def)

text \<open>
  Example for C8: the empty and a non-empty input on the page, an empty message on
  the server.
\<close>

theorem empty_content_only_client_guard_witness:
  "input_value \<lparr>input_value = [], sent = []\<rparr> = []
   \<and> form_submit \<lparr>input_value = [], sent = []\<rparr> = \<lparr>input_value = [], sent = []\<rparr>
   \<and> input_value \<lparr>input_value = ''hola'', sent = []\<rparr> \<noteq> []
   \<and> sent (form_submit \<lparr>input_value = ''hola'', sent = []\<rparr>) = [(''chat message'', JStr ''hola'')]
   \<and> docs (messagesCollection (chat_message sample_bson True 9 bob (JStr []) chat_log)) =
       docs (messagesCollection chat_log) @
         [(next_id (messagesCollection chat_log),
           \<lparr>content = JStr [], user = username (socket_user bob), timestamp = 9\<rparr>)]"
  using empty_content_only_client_guard
          [where cl = "\<lparr>input_value = [], sent = []\<rparr>" and drv = sample_bson and now = 9
             and sock = bob and srv = chat_log]
        empty_content_only_client_guard
          [where cl = "\<lparr>input_value = ''hola'', sent = []\<rparr>" and drv = sample_bson and now = 9
             and sock = bob and srv = chat_log]
  by simp

text \<open>
  C8 as stated fails on the server: an empty message from alice is stored and
  broadcast.
\<close>

theorem empty_content_reaches_log:
  "docs (messagesCollection (chat_message sample_bson True 7 alice (JStr []) init_server)) =
     [(0, \<lparr>content = JStr [], user = ''alice'', timestamp = 7\<rparr>)]
   \<and> emitted (chat_message sample_bson True 7 alice (JStr []) init_server) =
     [IoEmit (ChatMessage (JStr []) ''000000000000000000000000'' ''alice'' 7)]"
  by (simp add: chat_message_up io_emit_def init_server_def alice_def sample_str0)

end
